theory Spec2Isabelle
  imports Main "HOL-Library.AList"
begin

section \<open>Python values\<close>

text \<open>
  The values that travel through \<^verbatim>\<open>dual_store_memory_example.py\<close>: \<^verbatim>\<open>None\<close>, booleans,
  integers, strings, lists and dictionaries with string keys. A dictionary is an
  association list in insertion order, as a Python \<^verbatim>\<open>dict\<close> keeps it.
\<close>

datatype pyval =
    PNone
  | PBool bool
  | PInt int
  | PStr string
  | PList "pyval list"
  | PDict "(string \<times> pyval) list"

type_synonym py_dict = "(string \<times> pyval) list"

text \<open>\<^verbatim>\<open>d.get(k, default)\<close>: the value under \<open>k\<close> when the key is present (also when that
  value is \<^verbatim>\<open>None\<close>), the default otherwise. \<^verbatim>\<open>d.get(k)\<close> is \<open>dict_get d k PNone\<close>.\<close>

definition dict_get :: "py_dict \<Rightarrow> string \<Rightarrow> pyval \<Rightarrow> pyval" where
  "dict_get d k dflt = (case map_of d k of None \<Rightarrow> dflt | Some v \<Rightarrow> v)"

text \<open>
  The replacement field of an f-string, \<^verbatim>\<open>f"{v}"\<close>, is \<^verbatim>\<open>format(v, "")\<close>: a string is
  inserted as it is, every other value through Python's builtin \<^verbatim>\<open>str\<close>, which is not
  part of the program and is taken as the parameter \<open>py_str\<close>.
\<close>

definition format_value :: "(pyval \<Rightarrow> string) \<Rightarrow> pyval \<Rightarrow> string" where
  "format_value py_str v = (case v of PStr s \<Rightarrow> s | _ \<Rightarrow> py_str v)"

section \<open>The two collaborators\<close>

text \<open>
  The stores are objects handed to the constructor; the class only calls their
  \<^verbatim>\<open>put\<close>, \<^verbatim>\<open>get\<close> and \<^verbatim>\<open>search\<close> methods. A store is therefore the record of its three
  methods, each acting on the world \<open>'w\<close> that holds the state of every object (so
  the two stores may be separate objects or one and the same). A call either
  returns a value or raises; in both cases it leaves a world behind.
\<close>

datatype py_exn = PyExn string

type_synonym ('a, 'w) awaitable = "'w \<Rightarrow> (py_exn + 'a) \<times> 'w"

text \<open>The result of \<^verbatim>\<open>get\<close> and each result of \<^verbatim>\<open>search\<close> is an object with a
  \<^verbatim>\<open>value\<close> attribute; such an object is truthy, only \<^verbatim>\<open>None\<close> is not.\<close>

record item =
  item_value :: pyval

record 'w store =
  put :: "string list \<Rightarrow> string \<Rightarrow> pyval \<Rightarrow> (unit, 'w) awaitable"
  get :: "string list \<Rightarrow> string \<Rightarrow> (item option, 'w) awaitable"
  search :: "string list \<Rightarrow> string \<Rightarrow> int \<Rightarrow> (item list, 'w) awaitable"

text \<open>\<^verbatim>\<open>x = await f; k(x)\<close>: run \<open>f\<close>; an exception ends the coroutine and
  propagates (the class has no \<^verbatim>\<open>try\<close>), a value is passed on.\<close>

definition await :: "('a, 'w) awaitable \<Rightarrow> ('a \<Rightarrow> ('b, 'w) awaitable) \<Rightarrow> ('b, 'w) awaitable" where
  "await f k w = (case f w of (Inl e, w') \<Rightarrow> (Inl e, w') | (Inr x, w') \<Rightarrow> k x w')"

definition return_value :: "'a \<Rightarrow> ('a, 'w) awaitable" where
  "return_value x w = (Inr x, w)"

section \<open>DualStoreMemoryManager\<close>

text \<open>\<^verbatim>\<open>self.regular_store\<close> and \<^verbatim>\<open>self.semantic_store\<close>; the latter is \<^verbatim>\<open>None\<close> by
  default. A store is a plain object and so truthy: \<^verbatim>\<open>if not self.semantic_store\<close>
  holds exactly when the field is \<^verbatim>\<open>None\<close>.\<close>

record 'w DualStoreMemoryManager =
  regular_store :: "'w store"
  semantic_store :: "'w store option"

definition init :: "'w store \<Rightarrow> 'w store option \<Rightarrow> 'w DualStoreMemoryManager" where
  "init regular semantic = \<lparr>regular_store = regular, semantic_store = semantic\<rparr>"

definition store_user_preferences ::
  "'w DualStoreMemoryManager \<Rightarrow> string \<Rightarrow> py_dict \<Rightarrow> (unit, 'w) awaitable" where
  "store_user_preferences self assistant_id preferences =
     await (put (regular_store self) [''user_data'', assistant_id] ''preferences''
              (PDict preferences))
       (\<lambda>_. return_value ())"

definition get_user_preferences ::
  "'w DualStoreMemoryManager \<Rightarrow> string \<Rightarrow> (pyval, 'w) awaitable" where
  "get_user_preferences self assistant_id =
     await (get (regular_store self) [''user_data'', assistant_id] ''preferences'')
       (\<lambda>item. return_value (case item of Some it \<Rightarrow> item_value it | None \<Rightarrow> PDict []))"

definition semantic_data :: "py_dict \<Rightarrow> py_dict" where
  "semantic_data conversation =
     [(''text'', dict_get conversation ''text'' (PStr '''')),
      (''topics'', dict_get conversation ''topics'' (PList [])),
      (''timestamp'', dict_get conversation ''timestamp'' PNone),
      (''sentiment'', dict_get conversation ''sentiment'' (PStr ''neutral''))]"

definition conversation_key :: "(pyval \<Rightarrow> string) \<Rightarrow> py_dict \<Rightarrow> string" where
  "conversation_key py_str conversation =
     ''conv_'' @ format_value py_str (dict_get conversation ''id'' (PStr ''unknown''))"

definition store_conversation_for_search ::
  "(pyval \<Rightarrow> string) \<Rightarrow> 'w DualStoreMemoryManager \<Rightarrow> string \<Rightarrow> py_dict \<Rightarrow> (unit, 'w) awaitable" where
  "store_conversation_for_search py_str self assistant_id conversation =
     (case semantic_store self of
        None \<Rightarrow> return_value ()
      | Some sem \<Rightarrow>
          await (put sem [''conversations'', assistant_id]
                   (conversation_key py_str conversation)
                   (PDict (semantic_data conversation)))
            (\<lambda>_. return_value ()))"

text \<open>The limit is always passed; a call that leaves it out passes the default 3.\<close>

definition search_similar_conversations ::
  "'w DualStoreMemoryManager \<Rightarrow> string \<Rightarrow> string \<Rightarrow> int \<Rightarrow> (pyval list, 'w) awaitable" where
  "search_similar_conversations self assistant_id query limit =
     (case semantic_store self of
        None \<Rightarrow> return_value []
      | Some sem \<Rightarrow>
          await (search sem [''conversations'', assistant_id] query limit)
            (\<lambda>results. return_value (map item_value results)))"

definition get_context_for_response ::
  "'w DualStoreMemoryManager \<Rightarrow> string \<Rightarrow> string \<Rightarrow> (py_dict, 'w) awaitable" where
  "get_context_for_response self assistant_id user_query =
     await (get_user_preferences self assistant_id)
       (\<lambda>preferences.
          await (case semantic_store self of
                   None \<Rightarrow> return_value []
                 | Some _ \<Rightarrow> search_similar_conversations self assistant_id user_query 2)
            (\<lambda>similar_conversations.
               return_value
                 [(''user_preferences'', preferences),
                  (''relevant_conversations'', PList similar_conversations),
                  (''query'', PStr user_query)]))"

section \<open>The context request as a sequence of the two public operations\<close>

text \<open>
  The specification describes \<^verbatim>\<open>get_context_for_response\<close> as the preference lookup
  followed by the similarity search with the limit fixed at 2, and nothing else. This
  is that description, to be compared with the definition taken from the code.
\<close>

definition get_context_spec ::
  "'w DualStoreMemoryManager \<Rightarrow> string \<Rightarrow> string \<Rightarrow> (py_dict, 'w) awaitable" where
  "get_context_spec self assistant_id user_query =
     await (get_user_preferences self assistant_id)
       (\<lambda>preferences.
          await (search_similar_conversations self assistant_id user_query 2)
            (\<lambda>similar_conversations.
               return_value
                 [(''user_preferences'', preferences),
                  (''relevant_conversations'', PList similar_conversations),
                  (''query'', PStr user_query)]))"

section \<open>What is assumed of a store\<close>

text \<open>A store whose \<^verbatim>\<open>get\<close> returns the value last \<^verbatim>\<open>put\<close> under the same namespace and
  key.\<close>

definition returns_last_put :: "'w store \<Rightarrow> bool" where
  "returns_last_put s \<longleftrightarrow>
     (\<forall>ns k v w w'. put s ns k v w = (Inr (), w') \<longrightarrow>
        (\<exists>it w''. get s ns k w' = (Inr (Some it), w'') \<and> item_value it = v))"

text \<open>A store whose \<^verbatim>\<open>search\<close> with the given limit returns at most that many results.\<close>

definition search_within_limit :: "'w store \<Rightarrow> int \<Rightarrow> bool" where
  "search_within_limit s limit \<longleftrightarrow>
     (\<forall>ns q w rs w'. search s ns q limit w = (Inr rs, w') \<longrightarrow> int (length rs) \<le> limit)"

text \<open>
  \<open>contents w (ns, k)\<close> reads what a world holds under a namespace and key. A store
  keeps the other records when its \<^verbatim>\<open>put\<close> changes the contents at most under the
  namespace and key it is called with, and its \<^verbatim>\<open>get\<close> and \<^verbatim>\<open>search\<close> change nothing.
\<close>

definition keeps_other_records ::
  "('w \<Rightarrow> string list \<times> string \<Rightarrow> 'c) \<Rightarrow> 'w store \<Rightarrow> bool" where
  "keeps_other_records contents s \<longleftrightarrow>
     (\<forall>ns k v w p. p \<noteq> (ns, k) \<longrightarrow> contents (snd (put s ns k v w)) p = contents w p) \<and>
     (\<forall>ns k w. contents (snd (get s ns k w)) = contents w) \<and>
     (\<forall>ns q l w. contents (snd (search s ns q l w)) = contents w)"

text \<open>A property asked of the semantic store, when the manager has one.\<close>

definition when_configured :: "('w store \<Rightarrow> bool) \<Rightarrow> 'w DualStoreMemoryManager \<Rightarrow> bool" where
  "when_configured P self = (case semantic_store self of None \<Rightarrow> True | Some sem \<Rightarrow> P sem)"

section \<open>Recording the calls a store receives\<close>

text \<open>
  \<open>spy r s\<close> behaves as the store \<open>s\<close> and appends every call it receives to a log
  kept beside the world. \<open>spied self\<close> is the manager with both of its stores
  wrapped so.
\<close>

datatype store_role = Regular | Semantic

datatype store_call =
    PutCall store_role "string list" string pyval
  | GetCall store_role "string list" string
  | SearchCall store_role "string list" string int

definition spy :: "store_role \<Rightarrow> 'w store \<Rightarrow> (store_call list \<times> 'w) store" where
  "spy r s =
     \<lparr>put = (\<lambda>ns k v (log, w).
              case put s ns k v w of (res, w') \<Rightarrow> (res, (log @ [PutCall r ns k v], w'))),
      get = (\<lambda>ns k (log, w).
              case get s ns k w of (res, w') \<Rightarrow> (res, (log @ [GetCall r ns k], w'))),
      search = (\<lambda>ns q l (log, w).
              case search s ns q l w of (res, w') \<Rightarrow> (res, (log @ [SearchCall r ns q l], w')))\<rparr>"

definition spied :: "'w DualStoreMemoryManager \<Rightarrow> (store_call list \<times> 'w) DualStoreMemoryManager" where
  "spied self =
     \<lparr>regular_store = spy Regular (regular_store self),
      semantic_store = map_option (spy Semantic) (semantic_store self)\<rparr>"

definition call_log :: "'r \<times> store_call list \<times> 'w \<Rightarrow> store_call list" where
  "call_log outcome = fst (snd outcome)"

fun call_namespace :: "store_call \<Rightarrow> string list" where
  "call_namespace (PutCall r ns k v) = ns"
| "call_namespace (GetCall r ns k) = ns"
| "call_namespace (SearchCall r ns q l) = ns"

fun put_targets :: "store_call list \<Rightarrow> (string list \<times> string) list" where
  "put_targets [] = []"
| "put_targets (PutCall r ns k v # cs) = (ns, k) # put_targets cs"
| "put_targets (c # cs) = put_targets cs"

text \<open>Calls that all go to the two namespaces of one entity.\<close>

definition touches_only :: "string \<Rightarrow> store_call list \<Rightarrow> bool" where
  "touches_only assistant_id calls =
     list_all (\<lambda>c. call_namespace c = [''user_data'', assistant_id] \<or>
                   call_namespace c = [''conversations'', assistant_id]) calls"

section \<open>An in-memory store\<close>

text \<open>
  A store that keeps its records in an association list found in the world through
  \<open>read\<close> and changed through \<open>change\<close>. Its \<^verbatim>\<open>put\<close> replaces the record under the
  same namespace and key, its \<^verbatim>\<open>search\<close> returns the first \<open>limit\<close> records of the
  namespace. It gives the theorems below a concrete collaborator.
\<close>

type_synonym memory = "((string list \<times> string) \<times> pyval) list"

definition in_memory_store ::
  "('w \<Rightarrow> memory) \<Rightarrow> ((memory \<Rightarrow> memory) \<Rightarrow> 'w \<Rightarrow> 'w) \<Rightarrow> 'w store" where
  "in_memory_store read change =
     \<lparr>put = (\<lambda>ns k v w. (Inr (), change (AList.update (ns, k) v) w)),
      get = (\<lambda>ns k w. (Inr (map_option (\<lambda>v. \<lparr>item_value = v\<rparr>) (map_of (read w) (ns, k))), w)),
      search = (\<lambda>ns q l w.
        (Inr (take (nat l)
           (map (\<lambda>(p, v). \<lparr>item_value = v\<rparr>) (filter (\<lambda>(p, v). fst p = ns) (read w)))), w))\<rparr>"

text \<open>One store over a world that is its memory, and two separate stores over a
  world that is a pair of memories.\<close>

definition single_store :: "memory store" where
  "single_store = in_memory_store (\<lambda>w. w) (\<lambda>f. f)"

definition first_store :: "(memory \<times> memory) store" where
  "first_store = in_memory_store fst apfst"

definition second_store :: "(memory \<times> memory) store" where
  "second_store = in_memory_store snd apsnd"

text \<open>
  A manager over the two separate stores, and a world in which entity \<^verbatim>\<open>e1\<close> has
  preferences and three conversations, and entity \<^verbatim>\<open>e2\<close> one conversation.
\<close>

definition example_manager :: "(memory \<times> memory) DualStoreMemoryManager" where
  "example_manager = init first_store (Some second_store)"

definition example_world :: "memory \<times> memory" where
  "example_world =
     ([(([''user_data'', ''e1''], ''preferences''), PDict [(''theme'', PStr ''dark'')])],
      [(([''conversations'', ''e1''], ''conv_1''), PDict [(''text'', PStr ''hello'')]),
       (([''conversations'', ''e2''], ''conv_1''), PDict [(''text'', PStr ''other'')]),
       (([''conversations'', ''e1''], ''conv_2''), PDict [(''text'', PStr ''weather'')]),
       (([''conversations'', ''e1''], ''conv_3''), PDict [(''text'', PStr ''bye'')])])"

text \<open>A formatter for the examples; they format strings only, which never reach it.\<close>

definition unformatted :: "pyval \<Rightarrow> string" where
  "unformatted v = ''?''"

text \<open>What both memories of such a world hold under a namespace and key.\<close>

definition both_contents :: "memory \<times> memory \<Rightarrow> string list \<times> string \<Rightarrow> pyval option \<times> pyval option" where
  "both_contents w p = (map_of (fst w) p, map_of (snd w) p)"

section \<open>Basic facts\<close>

subsection \<open>Awaiting\<close>

lemma await_return_value: "await f return_value = f"
proof
  fix w
  show "await f return_value w = f w"
    by (cases "f w") (auto simp: await_def return_value_def split: sum.splits)
qed

subsection \<open>Each method in terms of the store calls it makes\<close>

lemma store_user_preferences_is_put:
  "store_user_preferences self a prefs =
     put (regular_store self) [''user_data'', a] ''preferences'' (PDict prefs)"
  by (simp add: store_user_preferences_def await_return_value)

lemma get_user_preferences_cases:
  "get_user_preferences self a w =
     (case get (regular_store self) [''user_data'', a] ''preferences'' w of
        (Inl e, w') \<Rightarrow> (Inl e, w')
      | (Inr None, w') \<Rightarrow> (Inr (PDict []), w')
      | (Inr (Some it), w') \<Rightarrow> (Inr (item_value it), w'))"
  by (simp add: get_user_preferences_def await_def return_value_def
           split: prod.splits sum.splits option.splits)

lemma store_conversation_is_put:
  "semantic_store self = Some sem \<Longrightarrow>
   store_conversation_for_search py_str self a c =
     put sem [''conversations'', a] (conversation_key py_str c) (PDict (semantic_data c))"
  by (simp add: store_conversation_for_search_def await_return_value)

lemma store_conversation_unconfigured:
  "semantic_store self = None \<Longrightarrow>
   store_conversation_for_search py_str self a c = return_value ()"
  by (simp add: store_conversation_for_search_def)

lemma search_similar_unconfigured:
  "semantic_store self = None \<Longrightarrow> search_similar_conversations self a q l = return_value []"
  by (simp add: search_similar_conversations_def)

lemma search_similar_cases:
  "semantic_store self = Some sem \<Longrightarrow>
   search_similar_conversations self a q l w =
     (case search sem [''conversations'', a] q l w of
        (Inl e, w') \<Rightarrow> (Inl e, w')
      | (Inr results, w') \<Rightarrow> (Inr (map item_value results), w'))"
  by (simp add: search_similar_conversations_def await_def return_value_def
        split: prod.splits sum.splits)

lemma get_context_cases:
  "get_context_for_response self a q w =
     (case get_user_preferences self a w of
        (Inl e, w1) \<Rightarrow> (Inl e, w1)
      | (Inr prefs, w1) \<Rightarrow>
          (case search_similar_conversations self a q 2 w1 of
             (Inl e, w2) \<Rightarrow> (Inl e, w2)
           | (Inr convs, w2) \<Rightarrow>
               (Inr [(''user_preferences'', prefs), (''relevant_conversations'', PList convs),
                     (''query'', PStr q)], w2)))"
  by (cases "semantic_store self")
     (simp_all add: get_context_for_response_def search_similar_unconfigured await_def
        return_value_def split: prod.splits sum.splits)

text \<open>An exception raised by a store reaches the caller as it is; after a failed
  preference lookup the context request makes no search.\<close>

lemma get_context_propagates_get_failure:
  assumes "get (regular_store self) [''user_data'', a] ''preferences'' w = (Inl e, w')"
  shows "get_context_for_response self a q w = (Inl e, w')"
  using assms by (simp add: get_context_cases get_user_preferences_cases)

lemma get_context_propagates_search_failure:
  assumes "get (regular_store self) [''user_data'', a] ''preferences'' w = (Inr item, w1)"
    and "semantic_store self = Some sem"
    and "search sem [''conversations'', a] q 2 w1 = (Inl e, w2)"
  shows "get_context_for_response self a q w = (Inl e, w2)"
  using assms
  by (cases item) (simp_all add: get_context_cases get_user_preferences_cases search_similar_cases)

subsection \<open>The recording stores\<close>

lemma spied_regular [simp]: "regular_store (spied self) = spy Regular (regular_store self)"
  by (simp add: spied_def)

lemma spied_semantic [simp]:
  "semantic_store (spied self) = map_option (spy Semantic) (semantic_store self)"
  by (simp add: spied_def)

lemma spy_put [simp]:
  "put (spy r s) ns k v (log, w) =
     (fst (put s ns k v w), log @ [PutCall r ns k v], snd (put s ns k v w))"
  by (simp add: spy_def split: prod.splits)

lemma spy_get [simp]:
  "get (spy r s) ns k (log, w) =
     (fst (get s ns k w), log @ [GetCall r ns k], snd (get s ns k w))"
  by (simp add: spy_def split: prod.splits)

lemma spy_search [simp]:
  "search (spy r s) ns q l (log, w) =
     (fst (search s ns q l w), log @ [SearchCall r ns q l], snd (search s ns q l w))"
  by (simp add: spy_def split: prod.splits)

lemma store_user_preferences_calls:
  "call_log (store_user_preferences (spied self) a prefs (log, w)) =
     log @ [PutCall Regular [''user_data'', a] ''preferences'' (PDict prefs)]"
  by (simp add: store_user_preferences_is_put call_log_def)

lemma get_user_preferences_calls:
  "call_log (get_user_preferences (spied self) a (log, w)) =
     log @ [GetCall Regular [''user_data'', a] ''preferences'']"
  by (simp add: get_user_preferences_cases call_log_def split: sum.splits option.splits)

lemma store_conversation_calls:
  "call_log (store_conversation_for_search py_str (spied self) a c (log, w)) =
     log @ (case semantic_store self of
              None \<Rightarrow> []
            | Some sem \<Rightarrow> [PutCall Semantic [''conversations'', a] (conversation_key py_str c)
                             (PDict (semantic_data c))])"
proof (cases "semantic_store self")
  case None
  then have "semantic_store (spied self) = None" by simp
  with None show ?thesis
    by (simp add: store_conversation_unconfigured return_value_def call_log_def)
next
  case (Some sem)
  then have "semantic_store (spied self) = Some (spy Semantic sem)" by simp
  with Some show ?thesis
    by (simp add: store_conversation_is_put call_log_def)
qed

lemma search_similar_calls:
  "call_log (search_similar_conversations (spied self) a q l (log, w)) =
     log @ (case semantic_store self of
              None \<Rightarrow> []
            | Some sem \<Rightarrow> [SearchCall Semantic [''conversations'', a] q l])"
proof (cases "semantic_store self")
  case None
  then have "semantic_store (spied self) = None" by simp
  with None show ?thesis
    by (simp add: search_similar_unconfigured return_value_def call_log_def)
next
  case (Some sem)
  then have "semantic_store (spied self) = Some (spy Semantic sem)" by simp
  with Some show ?thesis
    by (simp add: search_similar_cases call_log_def split: sum.splits)
qed

lemma get_context_calls:
  "call_log (get_context_for_response (spied self) a q (log, w)) =
     log @ GetCall Regular [''user_data'', a] ''preferences'' #
       (case fst (get (regular_store self) [''user_data'', a] ''preferences'' w) of
          Inl e \<Rightarrow> []
        | Inr item \<Rightarrow>
            (case semantic_store self of
               None \<Rightarrow> []
             | Some sem \<Rightarrow> [SearchCall Semantic [''conversations'', a] q 2]))"
proof (cases "get_user_preferences (spied self) a (log, w)")
  case (fields res log1 w1)
  from get_user_preferences_calls [of self a log w] fields
  have log1: "log1 = log @ [GetCall Regular [''user_data'', a] ''preferences'']"
    by (simp add: call_log_def)
  show ?thesis
  proof (cases res)
    case (Inl e)
    with fields have "fst (get (regular_store self) [''user_data'', a] ''preferences'' w) = Inl e"
      by (simp add: get_user_preferences_cases split: sum.splits option.splits)
    with fields Inl log1 show ?thesis
      by (simp add: get_context_cases call_log_def)
  next
    case (Inr prefs)
    with fields obtain item where
      "fst (get (regular_store self) [''user_data'', a] ''preferences'' w) = Inr item"
      by (auto simp: get_user_preferences_cases split: sum.splits option.splits)
    moreover from search_similar_calls [of self a q 2 log1 w1]
    have "fst (snd (search_similar_conversations (spied self) a q 2 (log1, w1))) =
            log1 @ (case semantic_store self of
                      None \<Rightarrow> []
                    | Some sem \<Rightarrow> [SearchCall Semantic [''conversations'', a] q 2])"
      by (simp add: call_log_def)
    ultimately show ?thesis using fields Inr log1
      by (auto simp: get_context_cases call_log_def split: prod.splits sum.splits)
  qed
qed

subsection \<open>The in-memory store\<close>

lemma in_memory_put [simp]:
  "put (in_memory_store read change) ns k v w = (Inr (), change (AList.update (ns, k) v) w)"
  by (simp add: in_memory_store_def)

lemma in_memory_get [simp]:
  "get (in_memory_store read change) ns k w =
     (Inr (map_option (\<lambda>v. \<lparr>item_value = v\<rparr>) (map_of (read w) (ns, k))), w)"
  by (simp add: in_memory_store_def)

lemma in_memory_search [simp]:
  "search (in_memory_store read change) ns q l w =
     (Inr (take (nat l) (map (\<lambda>(p, v). \<lparr>item_value = v\<rparr>) (filter (\<lambda>(p, v). fst p = ns) (read w)))), w)"
  by (simp add: in_memory_store_def)

lemma in_memory_returns_last_put:
  assumes "\<And>f w. read (change f w) = f (read w)"
  shows "returns_last_put (in_memory_store read change)"
  unfolding returns_last_put_def
  by (auto simp: assms update_conv')

lemma single_store_returns_last_put: "returns_last_put single_store"
  unfolding single_store_def by (rule in_memory_returns_last_put) simp

lemma in_memory_search_within_limit:
  "0 \<le> l \<Longrightarrow> search_within_limit (in_memory_store read change) l"
  unfolding search_within_limit_def by auto

lemma second_store_within_limit: "search_within_limit second_store 2"
  unfolding second_store_def by (rule in_memory_search_within_limit) simp

lemma first_store_keeps_other_records: "keeps_other_records both_contents first_store"
  unfolding keeps_other_records_def first_store_def both_contents_def
  by (auto simp: update_conv')

lemma second_store_keeps_other_records: "keeps_other_records both_contents second_store"
  unfolding keeps_other_records_def second_store_def both_contents_def
  by (auto simp: update_conv')

subsection \<open>The example manager\<close>

lemma example_semantic: "semantic_store example_manager = Some second_store"
  by (simp add: example_manager_def init_def)

lemma example_regular: "regular_store example_manager = first_store"
  by (simp add: example_manager_def init_def)

lemma example_get:
  "get first_store [''user_data'', ''e1''] ''preferences'' example_world =
     (Inr (Some \<lparr>item_value = PDict [(''theme'', PStr ''dark'')]\<rparr>), example_world)"
  by (simp add: example_world_def first_store_def)

lemma example_search:
  "search second_store [''conversations'', ''e1''] ''hello'' 2 example_world =
     (Inr [\<lparr>item_value = PDict [(''text'', PStr ''hello'')]\<rparr>,
           \<lparr>item_value = PDict [(''text'', PStr ''weather'')]\<rparr>], example_world)"
  by (simp add: example_world_def second_store_def)

lemma example_preferences:
  "get_user_preferences example_manager ''e1'' example_world =
     (Inr (PDict [(''theme'', PStr ''dark'')]), example_world)"
  by (simp add: get_user_preferences_cases example_regular example_get)

lemma example_similar:
  "search_similar_conversations example_manager ''e1'' ''hello'' 2 example_world =
     (Inr [PDict [(''text'', PStr ''hello'')], PDict [(''text'', PStr ''weather'')]],
      example_world)"
  by (simp add: search_similar_cases [OF example_semantic] example_search)

lemma example_context:
  "get_context_for_response example_manager ''e1'' ''hello'' example_world =
     (Inr [(''user_preferences'', PDict [(''theme'', PStr ''dark'')]),
           (''relevant_conversations'',
              PList [PDict [(''text'', PStr ''hello'')], PDict [(''text'', PStr ''weather'')]]),
           (''query'', PStr ''hello'')], example_world)"
  by (simp add: get_context_cases example_preferences example_similar)

section \<open>Preferences\<close>

text \<open>
  Claim C1. For every entity id and every preferences mapping, reading the
  preferences after storing them for the same entity id returns exactly the mapping
  that was stored, provided the regular store's \<^verbatim>\<open>get\<close> returns the value last
  \<^verbatim>\<open>put\<close> under the same namespace and key.
\<close>

theorem get_after_store_preferences:
  assumes law: "returns_last_put (regular_store self)"
    and stored: "store_user_preferences self a prefs w = (Inr (), w1)"
  shows "\<exists>w2. get_user_preferences self a w1 = (Inr (PDict prefs), w2)"
proof -
  from stored
  have "put (regular_store self) [''user_data'', a] ''preferences'' (PDict prefs) w = (Inr (), w1)"
    by (simp add: store_user_preferences_is_put)
  with law obtain it w2 where
    g: "get (regular_store self) [''user_data'', a] ''preferences'' w1 = (Inr (Some it), w2)"
    and v: "item_value it = PDict prefs"
    unfolding returns_last_put_def by blast
  from g v have "get_user_preferences self a w1 = (Inr (PDict prefs), w2)"
    by (simp add: get_user_preferences_cases)
  then show ?thesis ..
qed

text \<open>The example scenario of the specification: an in-memory regular store, no
  semantic store, entity \<^verbatim>\<open>e1\<close>, preferences \<^verbatim>\<open>{"theme": "dark"}\<close>.\<close>

theorem get_after_store_preferences_witness:
  "returns_last_put (regular_store (init single_store None)) \<and>
   store_user_preferences (init single_store None) ''e1'' [(''theme'', PStr ''dark'')] []
     = (Inr (), [(([''user_data'', ''e1''], ''preferences''), PDict [(''theme'', PStr ''dark'')])]) \<and>
   (\<exists>w2. get_user_preferences (init single_store None) ''e1''
      [(([''user_data'', ''e1''], ''preferences''), PDict [(''theme'', PStr ''dark'')])]
     = (Inr (PDict [(''theme'', PStr ''dark'')]), w2))"
proof -
  have law: "returns_last_put (regular_store (init single_store None))"
    by (simp add: init_def single_store_returns_last_put)
  have stored: "store_user_preferences (init single_store None) ''e1'' [(''theme'', PStr ''dark'')] []
     = (Inr (), [(([''user_data'', ''e1''], ''preferences''), PDict [(''theme'', PStr ''dark'')])])"
    by (simp add: store_user_preferences_is_put init_def single_store_def)
  from get_after_store_preferences [OF law stored] law stored show ?thesis by blast
qed

text \<open>
  Claim C5. For every entity id for which the regular store's \<^verbatim>\<open>get\<close> returns no
  record under namespace \<^verbatim>\<open>["user_data", id]\<close> and key \<^verbatim>\<open>"preferences"\<close>, reading the
  preferences returns the empty mapping.
\<close>

theorem get_preferences_absent:
  assumes "get (regular_store self) [''user_data'', a] ''preferences'' w = (Inr None, w')"
  shows "get_user_preferences self a w = (Inr (PDict []), w')"
  using assms by (simp add: get_user_preferences_cases)

theorem get_preferences_absent_witness:
  "get (regular_store (init single_store None)) [''user_data'', ''e1''] ''preferences'' []
     = (Inr None, []) \<and>
   get_user_preferences (init single_store None) ''e1'' [] = (Inr (PDict []), [])"
proof -
  have absent: "get (regular_store (init single_store None)) [''user_data'', ''e1''] ''preferences'' []
      = (Inr None, [])"
    by (simp add: init_def single_store_def)
  from get_preferences_absent [OF absent] absent show ?thesis by simp
qed

section \<open>Without a semantic store\<close>

text \<open>
  Claim C2. When the manager is constructed with no semantic store, then for every
  entity id and every input \<^verbatim>\<open>store_conversation_for_search\<close> makes no store call and
  returns nothing, and \<^verbatim>\<open>search_similar_conversations\<close> returns the empty list: the
  world is left as it was, and recording stores record no call.
\<close>

theorem no_semantic_store_is_noop:
  assumes "semantic_store self = None"
  shows "store_conversation_for_search py_str self a c w = (Inr (), w) \<and>
         search_similar_conversations self a q l w = (Inr [], w) \<and>
         store_conversation_for_search py_str (spied self) a c (log, w) = (Inr (), log, w) \<and>
         search_similar_conversations (spied self) a q l (log, w) = (Inr [], log, w)"
  using assms
  by (simp add: store_conversation_unconfigured search_similar_unconfigured return_value_def)

theorem no_semantic_store_is_noop_witness:
  "semantic_store (init single_store None) = None \<and>
   store_conversation_for_search unformatted (init single_store None) ''e1''
       [(''id'', PStr ''c1''), (''text'', PStr ''hello'')] [] = (Inr (), []) \<and>
   search_similar_conversations (init single_store None) ''e1'' ''anything'' 3 [] = (Inr [], []) \<and>
   store_conversation_for_search unformatted (spied (init single_store None)) ''e1''
       [(''id'', PStr ''c1''), (''text'', PStr ''hello'')] ([], []) = (Inr (), [], []) \<and>
   search_similar_conversations (spied (init single_store None)) ''e1'' ''anything'' 3 ([], [])
       = (Inr [], [], [])"
proof -
  have none: "semantic_store (init single_store None) = None"
    by (simp add: init_def)
  from no_semantic_store_is_noop [OF none] none show ?thesis by simp
qed

section \<open>Storing a conversation\<close>

text \<open>
  Claim C6. When a semantic store is configured, for every entity id and input
  conversation \<^verbatim>\<open>store_conversation_for_search\<close> is exactly one \<^verbatim>\<open>put\<close> on the semantic
  store, under namespace \<^verbatim>\<open>["conversations", id]\<close> and key \<^verbatim>\<open>"conv_"\<close> followed by the
  conversation's \<^verbatim>\<open>id\<close> (\<^verbatim>\<open>"unknown"\<close> when absent), of the mapping built from the
  input's \<^verbatim>\<open>text\<close>, \<^verbatim>\<open>topics\<close> (default \<^verbatim>\<open>[]\<close>), \<^verbatim>\<open>timestamp\<close> and \<^verbatim>\<open>sentiment\<close>
  (default \<^verbatim>\<open>"neutral"\<close>).
\<close>

theorem store_conversation_writes_one_record:
  assumes "semantic_store self = Some sem"
  shows "store_conversation_for_search py_str self a c =
           put sem [''conversations'', a]
             (''conv_'' @ format_value py_str (dict_get c ''id'' (PStr ''unknown'')))
             (PDict [(''text'', dict_get c ''text'' (PStr '''')),
                     (''topics'', dict_get c ''topics'' (PList [])),
                     (''timestamp'', dict_get c ''timestamp'' PNone),
                     (''sentiment'', dict_get c ''sentiment'' (PStr ''neutral''))]) \<and>
         call_log (store_conversation_for_search py_str (spied self) a c (log, w)) =
           log @ [PutCall Semantic [''conversations'', a]
             (''conv_'' @ format_value py_str (dict_get c ''id'' (PStr ''unknown'')))
             (PDict [(''text'', dict_get c ''text'' (PStr '''')),
                     (''topics'', dict_get c ''topics'' (PList [])),
                     (''timestamp'', dict_get c ''timestamp'' PNone),
                     (''sentiment'', dict_get c ''sentiment'' (PStr ''neutral''))])] \<and>
         (\<forall>s. map_of c ''id'' = Some (PStr s) \<longrightarrow>
            format_value py_str (dict_get c ''id'' (PStr ''unknown'')) = s) \<and>
         (map_of c ''id'' = None \<longrightarrow>
            format_value py_str (dict_get c ''id'' (PStr ''unknown'')) = ''unknown'')"
proof (intro conjI)
  show "store_conversation_for_search py_str self a c =
           put sem [''conversations'', a]
             (''conv_'' @ format_value py_str (dict_get c ''id'' (PStr ''unknown'')))
             (PDict [(''text'', dict_get c ''text'' (PStr '''')),
                     (''topics'', dict_get c ''topics'' (PList [])),
                     (''timestamp'', dict_get c ''timestamp'' PNone),
                     (''sentiment'', dict_get c ''sentiment'' (PStr ''neutral''))])"
    using assms by (simp add: store_conversation_is_put conversation_key_def semantic_data_def)
  show "call_log (store_conversation_for_search py_str (spied self) a c (log, w)) =
           log @ [PutCall Semantic [''conversations'', a]
             (''conv_'' @ format_value py_str (dict_get c ''id'' (PStr ''unknown'')))
             (PDict [(''text'', dict_get c ''text'' (PStr '''')),
                     (''topics'', dict_get c ''topics'' (PList [])),
                     (''timestamp'', dict_get c ''timestamp'' PNone),
                     (''sentiment'', dict_get c ''sentiment'' (PStr ''neutral''))])]"
    using assms by (simp add: store_conversation_calls conversation_key_def semantic_data_def)
  show "\<forall>s. map_of c ''id'' = Some (PStr s) \<longrightarrow>
            format_value py_str (dict_get c ''id'' (PStr ''unknown'')) = s"
    by (simp add: dict_get_def format_value_def)
  show "map_of c ''id'' = None \<longrightarrow>
            format_value py_str (dict_get c ''id'' (PStr ''unknown'')) = ''unknown''"
    by (simp add: dict_get_def format_value_def)
qed

text \<open>The conversation that the usage notes of the source file store from the
  chit-chat node, written into an empty semantic store.\<close>

theorem store_conversation_writes_one_record_witness:
  "semantic_store example_manager = Some second_store \<and>
   store_conversation_for_search unformatted example_manager ''e1''
     [(''id'', PStr ''chitchat_7''), (''text'', PStr ''nice day''),
      (''topics'', PList [PStr ''casual'', PStr ''conversation'']),
      (''sentiment'', PStr ''friendly''), (''timestamp'', PStr ''2024-01-01T00:00:00'')]
     ([], []) =
     (Inr (), [],
      [(([''conversations'', ''e1''], ''conv_chitchat_7''),
        PDict [(''text'', PStr ''nice day''),
               (''topics'', PList [PStr ''casual'', PStr ''conversation'']),
               (''timestamp'', PStr ''2024-01-01T00:00:00''),
               (''sentiment'', PStr ''friendly'')])]) \<and>
   call_log (store_conversation_for_search unformatted (spied example_manager) ''e1''
     [(''id'', PStr ''chitchat_7''), (''text'', PStr ''nice day''),
      (''topics'', PList [PStr ''casual'', PStr ''conversation'']),
      (''sentiment'', PStr ''friendly''), (''timestamp'', PStr ''2024-01-01T00:00:00'')]
     ([], [], [])) =
     [PutCall Semantic [''conversations'', ''e1''] ''conv_chitchat_7''
        (PDict [(''text'', PStr ''nice day''),
               (''topics'', PList [PStr ''casual'', PStr ''conversation'']),
               (''timestamp'', PStr ''2024-01-01T00:00:00''),
               (''sentiment'', PStr ''friendly'')])]"
  using store_conversation_writes_one_record [OF example_semantic,
    of unformatted "''e1''"
       "[(''id'', PStr ''chitchat_7''), (''text'', PStr ''nice day''),
         (''topics'', PList [PStr ''casual'', PStr ''conversation'']),
         (''sentiment'', PStr ''friendly''), (''timestamp'', PStr ''2024-01-01T00:00:00'')]"
       "[]" "([], [])"]
  by (simp add: example_semantic dict_get_def format_value_def second_store_def)

text \<open>
  Claim C10. When a semantic store is configured, a conversation that lacks the
  \<^verbatim>\<open>text\<close> or the \<^verbatim>\<open>timestamp\<close> field is still written: the record's \<^verbatim>\<open>text\<close> is then
  the empty string, and its \<^verbatim>\<open>timestamp\<close> is \<^verbatim>\<open>None\<close> (no default is applied to it).
\<close>

theorem store_conversation_missing_fields:
  assumes "semantic_store self = Some sem"
  shows "\<exists>key stored.
           store_conversation_for_search py_str self a c =
             put sem [''conversations'', a] key (PDict stored) \<and>
           call_log (store_conversation_for_search py_str (spied self) a c (log, w)) =
             log @ [PutCall Semantic [''conversations'', a] key (PDict stored)] \<and>
           (map_of c ''text'' = None \<longrightarrow> map_of stored ''text'' = Some (PStr '''')) \<and>
           (map_of c ''timestamp'' = None \<longrightarrow> map_of stored ''timestamp'' = Some PNone)"
proof (intro exI conjI)
  show "store_conversation_for_search py_str self a c =
          put sem [''conversations'', a] (conversation_key py_str c) (PDict (semantic_data c))"
    using assms by (rule store_conversation_is_put)
  show "call_log (store_conversation_for_search py_str (spied self) a c (log, w)) =
          log @ [PutCall Semantic [''conversations'', a] (conversation_key py_str c)
                   (PDict (semantic_data c))]"
    using assms by (simp add: store_conversation_calls)
  show "map_of c ''text'' = None \<longrightarrow> map_of (semantic_data c) ''text'' = Some (PStr '''')"
    by (simp add: semantic_data_def dict_get_def)
  show "map_of c ''timestamp'' = None \<longrightarrow>
          map_of (semantic_data c) ''timestamp'' = Some PNone"
    by (simp add: semantic_data_def dict_get_def)
qed

theorem store_conversation_missing_fields_witness:
  "semantic_store example_manager = Some second_store \<and>
   map_of [(''topics'', PList [PStr ''casual''])] ''text'' = None \<and>
   map_of [(''topics'', PList [PStr ''casual''])] ''timestamp'' = None \<and>
   (\<exists>key stored.
      call_log (store_conversation_for_search unformatted (spied example_manager) ''e1''
         [(''topics'', PList [PStr ''casual''])] ([], [], [])) =
       [] @ [PutCall Semantic [''conversations'', ''e1''] key (PDict stored)] \<and>
      map_of stored ''text'' = Some (PStr '''') \<and>
      map_of stored ''timestamp'' = Some PNone) \<and>
   call_log (store_conversation_for_search unformatted (spied example_manager) ''e1''
         [(''topics'', PList [PStr ''casual''])] ([], [], [])) =
     [PutCall Semantic [''conversations'', ''e1''] ''conv_unknown''
        (PDict [(''text'', PStr ''''), (''topics'', PList [PStr ''casual'']),
                (''timestamp'', PNone), (''sentiment'', PStr ''neutral'')])]"
proof -
  have absent: "map_of [(''topics'', PList [PStr ''casual''])] ''text'' = None"
    "map_of [(''topics'', PList [PStr ''casual''])] ''timestamp'' = None"
    by simp_all
  from store_conversation_missing_fields [OF example_semantic,
    of unformatted "''e1''" "[(''topics'', PList [PStr ''casual''])]" "[]" "([], [])"] absent
  have "\<exists>key stored.
      call_log (store_conversation_for_search unformatted (spied example_manager) ''e1''
         [(''topics'', PList [PStr ''casual''])] ([], [], [])) =
       [] @ [PutCall Semantic [''conversations'', ''e1''] key (PDict stored)] \<and>
      map_of stored ''text'' = Some (PStr '''') \<and>
      map_of stored ''timestamp'' = Some PNone"
    by blast
  moreover
  have "call_log (store_conversation_for_search unformatted (spied example_manager) ''e1''
         [(''topics'', PList [PStr ''casual''])] ([], [], [])) =
     [PutCall Semantic [''conversations'', ''e1''] ''conv_unknown''
        (PDict [(''text'', PStr ''''), (''topics'', PList [PStr ''casual'']),
                (''timestamp'', PNone), (''sentiment'', PStr ''neutral'')])]"
    by (simp add: store_conversation_calls example_semantic
          conversation_key_def semantic_data_def dict_get_def format_value_def)
  ultimately show ?thesis using example_semantic absent by blast
qed

section \<open>Searching\<close>

text \<open>
  Claim C7. When a semantic store is configured, for every entity id, query and
  limit \<^verbatim>\<open>search_similar_conversations\<close> makes the one call
  \<^verbatim>\<open>search(["conversations", id], query, limit)\<close> on it and returns the \<^verbatim>\<open>value\<close> of
  each result, in the order the store returned them (an exception of the store
  propagates). Hence it returns at most \<open>limit\<close> values whenever the store returned at
  most \<open>limit\<close> results.
\<close>

theorem search_similar_projects_values:
  assumes "semantic_store self = Some sem"
  shows "search_similar_conversations self a q l w =
           (case search sem [''conversations'', a] q l w of
              (Inl e, w') \<Rightarrow> (Inl e, w')
            | (Inr results, w') \<Rightarrow> (Inr (map item_value results), w')) \<and>
         call_log (search_similar_conversations (spied self) a q l (log, w)) =
           log @ [SearchCall Semantic [''conversations'', a] q l] \<and>
         (\<forall>results w'. search sem [''conversations'', a] q l w = (Inr results, w') \<and>
              int (length results) \<le> l \<longrightarrow>
            (\<exists>vs. search_similar_conversations self a q l w = (Inr vs, w') \<and>
                  int (length vs) \<le> l))"
proof (intro conjI)
  show "search_similar_conversations self a q l w =
           (case search sem [''conversations'', a] q l w of
              (Inl e, w') \<Rightarrow> (Inl e, w')
            | (Inr results, w') \<Rightarrow> (Inr (map item_value results), w'))"
    using assms by (rule search_similar_cases)
  show "call_log (search_similar_conversations (spied self) a q l (log, w)) =
           log @ [SearchCall Semantic [''conversations'', a] q l]"
    using assms by (simp add: search_similar_calls)
  show "\<forall>results w'. search sem [''conversations'', a] q l w = (Inr results, w') \<and>
              int (length results) \<le> l \<longrightarrow>
            (\<exists>vs. search_similar_conversations self a q l w = (Inr vs, w') \<and>
                  int (length vs) \<le> l)"
    using assms by (simp add: search_similar_cases)
qed

theorem search_similar_projects_values_witness:
  "semantic_store example_manager = Some second_store \<and>
   search second_store [''conversations'', ''e1''] ''hello'' 2 example_world =
     (Inr [\<lparr>item_value = PDict [(''text'', PStr ''hello'')]\<rparr>,
           \<lparr>item_value = PDict [(''text'', PStr ''weather'')]\<rparr>], example_world) \<and>
   search_similar_conversations example_manager ''e1'' ''hello'' 2 example_world =
     (Inr [PDict [(''text'', PStr ''hello'')], PDict [(''text'', PStr ''weather'')]],
      example_world) \<and>
   call_log (search_similar_conversations (spied example_manager) ''e1'' ''hello'' 2
      ([], example_world)) = [SearchCall Semantic [''conversations'', ''e1''] ''hello'' 2]"
  using search_similar_projects_values
    [OF example_semantic, of "''e1''" "''hello''" 2 example_world "[]"]
  by (simp add: example_semantic example_search)

section \<open>The context for a response\<close>

text \<open>
  Claim C8. For every manager, with or without a semantic store, and every entity id
  and query, \<^verbatim>\<open>get_context_for_response\<close> is the sequence of the two public
  operations and nothing more: it is equal to \<open>get_context_spec\<close>, so its
  \<^verbatim>\<open>user_preferences\<close> is what \<^verbatim>\<open>get_user_preferences\<close> returns and its
  \<^verbatim>\<open>relevant_conversations\<close> is what \<^verbatim>\<open>search_similar_conversations\<close> returns for the
  limit 2. The test of \<^verbatim>\<open>self.semantic_store\<close> in its body decides nothing that the
  search does not decide itself.
\<close>

theorem get_context_is_sequencing:
  "get_context_for_response self a q = get_context_spec self a q \<and>
   (\<forall>w prefs w1 convs w2.
      get_user_preferences self a w = (Inr prefs, w1) \<and>
      search_similar_conversations self a q 2 w1 = (Inr convs, w2) \<longrightarrow>
      get_context_for_response self a q w =
        (Inr [(''user_preferences'', prefs), (''relevant_conversations'', PList convs),
              (''query'', PStr q)], w2))"
proof
  show eq: "get_context_for_response self a q = get_context_spec self a q"
    by (cases "semantic_store self")
       (simp_all add: get_context_for_response_def get_context_spec_def
          search_similar_unconfigured)
  show "\<forall>w prefs w1 convs w2.
      get_user_preferences self a w = (Inr prefs, w1) \<and>
      search_similar_conversations self a q 2 w1 = (Inr convs, w2) \<longrightarrow>
      get_context_for_response self a q w =
        (Inr [(''user_preferences'', prefs), (''relevant_conversations'', PList convs),
              (''query'', PStr q)], w2)"
    by (simp add: get_context_cases)
qed

theorem get_context_is_sequencing_witness:
  "get_user_preferences example_manager ''e1'' example_world =
     (Inr (PDict [(''theme'', PStr ''dark'')]), example_world) \<and>
   search_similar_conversations example_manager ''e1'' ''hello'' 2 example_world =
     (Inr [PDict [(''text'', PStr ''hello'')], PDict [(''text'', PStr ''weather'')]],
      example_world) \<and>
   get_context_for_response example_manager ''e1'' ''hello'' example_world =
     (Inr [(''user_preferences'', PDict [(''theme'', PStr ''dark'')]),
           (''relevant_conversations'',
              PList [PDict [(''text'', PStr ''hello'')], PDict [(''text'', PStr ''weather'')]]),
           (''query'', PStr ''hello'')], example_world) \<and>
   get_context_spec example_manager ''e1'' ''hello'' example_world =
     get_context_for_response example_manager ''e1'' ''hello'' example_world"
proof -
  note seq = get_context_is_sequencing [of example_manager "''e1''" "''hello''"]
  from seq example_preferences example_similar
  have "get_context_for_response example_manager ''e1'' ''hello'' example_world =
     (Inr [(''user_preferences'', PDict [(''theme'', PStr ''dark'')]),
           (''relevant_conversations'',
              PList [PDict [(''text'', PStr ''hello'')], PDict [(''text'', PStr ''weather'')]]),
           (''query'', PStr ''hello'')], example_world)"
    by blast
  moreover from seq
  have "get_context_spec example_manager ''e1'' ''hello'' example_world =
     get_context_for_response example_manager ''e1'' ''hello'' example_world"
    by simp
  ultimately show ?thesis using example_preferences example_similar by blast
qed

lemma search_similar_length:
  assumes "when_configured (\<lambda>s. search_within_limit s l) self"
    and "0 \<le> l"
    and "search_similar_conversations self a q l w = (Inr convs, w')"
  shows "int (length convs) \<le> l"
proof (cases "semantic_store self")
  case None
  with assms(2,3) show ?thesis
    by (simp add: search_similar_unconfigured return_value_def)
next
  case (Some sem)
  with assms(1) have lim: "search_within_limit sem l"
    by (simp add: when_configured_def)
  from assms(3) Some obtain results where
    r: "search sem [''conversations'', a] q l w = (Inr results, w')"
    and c: "convs = map item_value results"
    by (auto simp: search_similar_cases split: prod.splits sum.splits)
  from lim r have "int (length results) \<le> l"
    unfolding search_within_limit_def by blast
  with c show ?thesis by simp
qed

lemma get_context_fields:
  assumes "when_configured (\<lambda>s. search_within_limit s 2) self"
    and "get_context_for_response self a q w = (Inr ctx, w')"
  shows "map_of ctx ''query'' = Some (PStr q) \<and>
         (\<exists>convs. map_of ctx ''relevant_conversations'' = Some (PList convs) \<and>
                  length convs \<le> 2)"
proof -
  from assms(2) obtain prefs w1 convs where
    s: "search_similar_conversations self a q 2 w1 = (Inr convs, w')"
    and b: "ctx = [(''user_preferences'', prefs), (''relevant_conversations'', PList convs),
                   (''query'', PStr q)]"
    by (auto simp: get_context_cases split: prod.splits sum.splits)
  from search_similar_length [OF assms(1) _ s] have "length convs \<le> 2" by simp
  with b show ?thesis by simp
qed

lemma get_context_returns:
  assumes g: "get (regular_store self) [''user_data'', a] ''preferences'' w = (Inr item, w1)"
    and s: "when_configured
              (\<lambda>s. \<exists>results w2. search s [''conversations'', a] q 2 w1 = (Inr results, w2)) self"
  shows "\<exists>ctx w'. get_context_for_response self a q w = (Inr ctx, w')"
proof -
  from g obtain prefs where p: "get_user_preferences self a w = (Inr prefs, w1)"
    by (cases item) (simp_all add: get_user_preferences_cases)
  have "\<exists>convs w2. search_similar_conversations self a q 2 w1 = (Inr convs, w2)"
  proof (cases "semantic_store self")
    case None
    then show ?thesis by (simp add: search_similar_unconfigured return_value_def)
  next
    case (Some sem)
    with s obtain results w2 where "search sem [''conversations'', a] q 2 w1 = (Inr results, w2)"
      by (auto simp: when_configured_def)
    with Some show ?thesis by (simp add: search_similar_cases)
  qed
  then obtain convs w2 where "search_similar_conversations self a q 2 w1 = (Inr convs, w2)"
    by blast
  with p show ?thesis by (simp add: get_context_cases)
qed

text \<open>
  Claim C3. For every entity id and query, the context that
  \<^verbatim>\<open>get_context_for_response\<close> returns has the input query as its \<^verbatim>\<open>query\<close>, unchanged,
  and at most 2 relevant conversations, provided the semantic store (when there is one)
  returns at most 2 results to a search with limit 2. A context is returned
  whenever the store calls return.
\<close>

theorem get_context_query_and_bound:
  assumes "when_configured (\<lambda>s. search_within_limit s 2) self"
  shows "(\<forall>ctx w'. get_context_for_response self a q w = (Inr ctx, w') \<longrightarrow>
            map_of ctx ''query'' = Some (PStr q) \<and>
            (\<exists>convs. map_of ctx ''relevant_conversations'' = Some (PList convs) \<and>
                     length convs \<le> 2)) \<and>
         (\<forall>item w1.
            get (regular_store self) [''user_data'', a] ''preferences'' w = (Inr item, w1) \<and>
            when_configured
              (\<lambda>s. \<exists>results w2. search s [''conversations'', a] q 2 w1 = (Inr results, w2)) self
            \<longrightarrow> (\<exists>ctx w'. get_context_for_response self a q w = (Inr ctx, w')))"
proof (rule conjI)
  show "\<forall>ctx w'. get_context_for_response self a q w = (Inr ctx, w') \<longrightarrow>
            map_of ctx ''query'' = Some (PStr q) \<and>
            (\<exists>convs. map_of ctx ''relevant_conversations'' = Some (PList convs) \<and>
                     length convs \<le> 2)"
    using get_context_fields [OF assms] by blast
  show "\<forall>item w1.
            get (regular_store self) [''user_data'', a] ''preferences'' w = (Inr item, w1) \<and>
            when_configured
              (\<lambda>s. \<exists>results w2. search s [''conversations'', a] q 2 w1 = (Inr results, w2)) self
            \<longrightarrow> (\<exists>ctx w'. get_context_for_response self a q w = (Inr ctx, w'))"
  proof (intro allI impI, elim conjE)
    fix item w1
    assume "get (regular_store self) [''user_data'', a] ''preferences'' w = (Inr item, w1)"
      and "when_configured
              (\<lambda>s. \<exists>results w2. search s [''conversations'', a] q 2 w1 = (Inr results, w2)) self"
    then show "\<exists>ctx w'. get_context_for_response self a q w = (Inr ctx, w')"
      by (rule get_context_returns)
  qed
qed

theorem get_context_query_and_bound_witness:
  "when_configured (\<lambda>s. search_within_limit s 2) example_manager \<and>
   get_context_for_response example_manager ''e1'' ''hello'' example_world =
     (Inr [(''user_preferences'', PDict [(''theme'', PStr ''dark'')]),
           (''relevant_conversations'',
              PList [PDict [(''text'', PStr ''hello'')], PDict [(''text'', PStr ''weather'')]]),
           (''query'', PStr ''hello'')], example_world) \<and>
   map_of [(''user_preferences'', PDict [(''theme'', PStr ''dark'')]),
           (''relevant_conversations'',
              PList [PDict [(''text'', PStr ''hello'')], PDict [(''text'', PStr ''weather'')]]),
           (''query'', PStr ''hello'')] ''query'' = Some (PStr ''hello'') \<and>
   length [PDict [(''text'', PStr ''hello'')], PDict [(''text'', PStr ''weather'')]] \<le> 2"
proof -
  have lim: "when_configured (\<lambda>s. search_within_limit s 2) example_manager"
    by (simp add: when_configured_def example_semantic second_store_within_limit)
  from get_context_query_and_bound [OF lim, of "''e1''" "''hello''" example_world,
      THEN conjunct1, rule_format, OF example_context]
  have "map_of [(''user_preferences'', PDict [(''theme'', PStr ''dark'')]),
           (''relevant_conversations'',
              PList [PDict [(''text'', PStr ''hello'')], PDict [(''text'', PStr ''weather'')]]),
           (''query'', PStr ''hello'')] ''query'' = Some (PStr ''hello'')"
    by (rule conjunct1)
  with lim example_context show ?thesis by simp
qed

section \<open>What a call for one entity touches\<close>

lemma keeps_other_records_put:
  "keeps_other_records contents s \<Longrightarrow> p \<noteq> (ns, k) \<Longrightarrow>
   contents (snd (put s ns k v w)) p = contents w p"
  unfolding keeps_other_records_def by blast

lemma get_user_preferences_world:
  "snd (get_user_preferences self a w) =
     snd (get (regular_store self) [''user_data'', a] ''preferences'' w)"
  by (simp add: get_user_preferences_cases split: prod.splits sum.splits option.splits)

lemma search_similar_world:
  "snd (search_similar_conversations self a q l w) =
     (case semantic_store self of
        None \<Rightarrow> w
      | Some sem \<Rightarrow> snd (search sem [''conversations'', a] q l w))"
  by (cases "semantic_store self")
     (simp_all add: search_similar_unconfigured return_value_def search_similar_cases
        split: prod.splits sum.splits)

lemma get_context_world:
  "snd (get_context_for_response self a q w) =
     (case get_user_preferences self a w of
        (Inl e, w1) \<Rightarrow> w1
      | (Inr prefs, w1) \<Rightarrow> snd (search_similar_conversations self a q 2 w1))"
  by (simp add: get_context_cases split: prod.splits sum.splits)

lemma get_user_preferences_keeps:
  assumes "keeps_other_records contents (regular_store self)"
  shows "contents (snd (get_user_preferences self a w)) = contents w"
  using assms by (simp add: get_user_preferences_world keeps_other_records_def)

lemma search_similar_keeps:
  assumes "when_configured (keeps_other_records contents) self"
  shows "contents (snd (search_similar_conversations self a q l w)) = contents w"
  using assms
  by (cases "semantic_store self")
     (simp_all add: search_similar_world when_configured_def keeps_other_records_def)

lemma get_context_keeps:
  assumes "keeps_other_records contents (regular_store self)"
    and "when_configured (keeps_other_records contents) self"
  shows "contents (snd (get_context_for_response self a q w)) = contents w"
proof (cases "get_user_preferences self a w")
  case (Pair res w1)
  with get_user_preferences_keeps [OF assms(1), of a w]
  have w1: "contents w1 = contents w" by simp
  show ?thesis
  proof (cases res)
    case (Inl e)
    with Pair w1 show ?thesis by (simp add: get_context_world)
  next
    case (Inr prefs)
    with Pair w1 search_similar_keeps [OF assms(2), of a q 2 w1] show ?thesis
      by (simp add: get_context_world)
  qed
qed

lemma store_user_preferences_keeps:
  assumes "keeps_other_records contents (regular_store self)"
    and "p \<noteq> ([''user_data'', a], ''preferences'')"
  shows "contents (snd (store_user_preferences self a prefs w)) p = contents w p"
  using assms by (simp add: store_user_preferences_is_put keeps_other_records_put)

lemma store_conversation_keeps:
  assumes "when_configured (keeps_other_records contents) self"
    and "p \<noteq> ([''conversations'', a], conversation_key py_str c)"
  shows "contents (snd (store_conversation_for_search py_str self a c w)) p = contents w p"
proof (cases "semantic_store self")
  case None
  then show ?thesis by (simp add: store_conversation_unconfigured return_value_def)
next
  case (Some sem)
  with assms(1) have "keeps_other_records contents sem"
    by (simp add: when_configured_def)
  with Some assms(2) show ?thesis
    by (simp add: store_conversation_is_put keeps_other_records_put)
qed

text \<open>
  Claim C9. Every operation invoked for an entity id calls the stores only with the
  namespaces \<^verbatim>\<open>["user_data", id]\<close> and \<^verbatim>\<open>["conversations", id]\<close>. The two storing
  operations \<^verbatim>\<open>put\<close> under one namespace-and-key pair only, so that with stores whose
  \<^verbatim>\<open>put\<close> changes nothing but the record it is called with, and whose \<^verbatim>\<open>get\<close> and
  \<^verbatim>\<open>search\<close> change nothing, the contents under every other pair are as before; the
  three reading operations make no \<^verbatim>\<open>put\<close> call and leave all contents as they were.
\<close>

theorem operations_touch_one_entity:
  assumes "keeps_other_records contents (regular_store self)"
    and "when_configured (keeps_other_records contents) self"
  shows "(\<exists>calls. call_log (store_user_preferences (spied self) a prefs (log, w)) = log @ calls \<and>
            touches_only a calls \<and>
            put_targets calls = [([''user_data'', a], ''preferences'')]) \<and>
         (\<exists>calls. call_log (store_conversation_for_search py_str (spied self) a c (log, w)) =
              log @ calls \<and>
            touches_only a calls \<and>
            set (put_targets calls) \<subseteq> {([''conversations'', a], conversation_key py_str c)}) \<and>
         (\<exists>calls. call_log (get_user_preferences (spied self) a (log, w)) = log @ calls \<and>
            touches_only a calls \<and> put_targets calls = []) \<and>
         (\<exists>calls. call_log (search_similar_conversations (spied self) a q l (log, w)) =
              log @ calls \<and>
            touches_only a calls \<and> put_targets calls = []) \<and>
         (\<exists>calls. call_log (get_context_for_response (spied self) a q (log, w)) = log @ calls \<and>
            touches_only a calls \<and> put_targets calls = []) \<and>
         (\<forall>p. p \<noteq> ([''user_data'', a], ''preferences'') \<longrightarrow>
            contents (snd (store_user_preferences self a prefs w)) p = contents w p) \<and>
         (\<forall>p. p \<noteq> ([''conversations'', a], conversation_key py_str c) \<longrightarrow>
            contents (snd (store_conversation_for_search py_str self a c w)) p = contents w p) \<and>
         contents (snd (get_user_preferences self a w)) = contents w \<and>
         contents (snd (search_similar_conversations self a q l w)) = contents w \<and>
         contents (snd (get_context_for_response self a q w)) = contents w"
proof (intro conjI)
  show "\<exists>calls. call_log (store_user_preferences (spied self) a prefs (log, w)) = log @ calls \<and>
            touches_only a calls \<and>
            put_targets calls = [([''user_data'', a], ''preferences'')]"
    by (simp add: store_user_preferences_calls touches_only_def)
  show "\<exists>calls. call_log (store_conversation_for_search py_str (spied self) a c (log, w)) =
              log @ calls \<and>
            touches_only a calls \<and>
            set (put_targets calls) \<subseteq> {([''conversations'', a], conversation_key py_str c)}"
    by (cases "semantic_store self") (simp_all add: store_conversation_calls touches_only_def)
  show "\<exists>calls. call_log (get_user_preferences (spied self) a (log, w)) = log @ calls \<and>
            touches_only a calls \<and> put_targets calls = []"
    by (simp add: get_user_preferences_calls touches_only_def)
  show "\<exists>calls. call_log (search_similar_conversations (spied self) a q l (log, w)) =
              log @ calls \<and>
            touches_only a calls \<and> put_targets calls = []"
    by (cases "semantic_store self") (simp_all add: search_similar_calls touches_only_def)
  show "\<exists>calls. call_log (get_context_for_response (spied self) a q (log, w)) = log @ calls \<and>
            touches_only a calls \<and> put_targets calls = []"
    by (cases "semantic_store self";
        cases "fst (get (regular_store self) [''user_data'', a] ''preferences'' w)")
       (simp_all add: get_context_calls touches_only_def)
  show "\<forall>p. p \<noteq> ([''user_data'', a], ''preferences'') \<longrightarrow>
            contents (snd (store_user_preferences self a prefs w)) p = contents w p"
    using store_user_preferences_keeps [OF assms(1)] by blast
  show "\<forall>p. p \<noteq> ([''conversations'', a], conversation_key py_str c) \<longrightarrow>
            contents (snd (store_conversation_for_search py_str self a c w)) p = contents w p"
    using store_conversation_keeps [OF assms(2)] by blast
  show "contents (snd (get_user_preferences self a w)) = contents w"
    using assms(1) by (rule get_user_preferences_keeps)
  show "contents (snd (search_similar_conversations self a q l w)) = contents w"
    using assms(2) by (rule search_similar_keeps)
  show "contents (snd (get_context_for_response self a q w)) = contents w"
    using assms by (rule get_context_keeps)
qed

text \<open>Entity \<^verbatim>\<open>e2\<close> writes and reads in the example world; what entity \<^verbatim>\<open>e1\<close> has in
  either store stays as it was.\<close>

theorem operations_touch_one_entity_witness:
  "keeps_other_records both_contents (regular_store example_manager) \<and>
   when_configured (keeps_other_records both_contents) example_manager \<and>
   ([''user_data'', ''e1''], ''preferences'') \<noteq> ([''user_data'', ''e2''], ''preferences'') \<and>
   both_contents
     (snd (store_user_preferences example_manager ''e2'' [(''theme'', PStr ''light'')]
             example_world))
     ([''user_data'', ''e1''], ''preferences'') =
     both_contents example_world ([''user_data'', ''e1''], ''preferences'') \<and>
   ([''conversations'', ''e1''], ''conv_1'') \<noteq>
     ([''conversations'', ''e2''],
      conversation_key unformatted [(''id'', PStr ''1''), (''text'', PStr ''again'')]) \<and>
   both_contents
     (snd (store_conversation_for_search unformatted example_manager ''e2''
             [(''id'', PStr ''1''), (''text'', PStr ''again'')] example_world))
     ([''conversations'', ''e1''], ''conv_1'') =
     both_contents example_world ([''conversations'', ''e1''], ''conv_1'') \<and>
   both_contents (snd (get_context_for_response example_manager ''e2'' ''hello'' example_world)) =
     both_contents example_world \<and>
   call_log (store_user_preferences (spied example_manager) ''e2'' [(''theme'', PStr ''light'')]
      ([], example_world)) =
     [PutCall Regular [''user_data'', ''e2''] ''preferences'' (PDict [(''theme'', PStr ''light'')])] \<and>
   call_log (get_context_for_response (spied example_manager) ''e2'' ''hello''
      ([], example_world)) =
     [GetCall Regular [''user_data'', ''e2''] ''preferences'',
      SearchCall Semantic [''conversations'', ''e2''] ''hello'' 2]"
proof -
  have k1: "keeps_other_records both_contents (regular_store example_manager)"
    by (simp add: example_regular first_store_keeps_other_records)
  have k2: "when_configured (keeps_other_records both_contents) example_manager"
    by (simp add: when_configured_def example_semantic second_store_keeps_other_records)
  note touch = operations_touch_one_entity [OF k1 k2,
      where a = "''e2''" and prefs = "[(''theme'', PStr ''light'')]" and w = example_world
        and py_str = unformatted and c = "[(''id'', PStr ''1''), (''text'', PStr ''again'')]"
        and q = "''hello''" and l = 2 and log = "[]"]
  have d1: "([''user_data'', ''e1''], ''preferences'') \<noteq> ([''user_data'', ''e2''], ''preferences'')"
    by simp
  have d2: "([''conversations'', ''e1''], ''conv_1'') \<noteq>
     ([''conversations'', ''e2''],
      conversation_key unformatted [(''id'', PStr ''1''), (''text'', PStr ''again'')])"
    by simp
  from touch
  have s1: "\<forall>p. p \<noteq> ([''user_data'', ''e2''], ''preferences'') \<longrightarrow>
          both_contents
            (snd (store_user_preferences example_manager ''e2'' [(''theme'', PStr ''light'')]
                    example_world)) p =
          both_contents example_world p"
    by (elim conjE)
  have c1: "both_contents
     (snd (store_user_preferences example_manager ''e2'' [(''theme'', PStr ''light'')]
             example_world))
     ([''user_data'', ''e1''], ''preferences'') =
     both_contents example_world ([''user_data'', ''e1''], ''preferences'')"
    by (rule s1 [rule_format, OF d1])
  from touch
  have s2: "\<forall>p. p \<noteq> ([''conversations'', ''e2''],
               conversation_key unformatted [(''id'', PStr ''1''), (''text'', PStr ''again'')]) \<longrightarrow>
          both_contents
            (snd (store_conversation_for_search unformatted example_manager ''e2''
                    [(''id'', PStr ''1''), (''text'', PStr ''again'')] example_world)) p =
          both_contents example_world p"
    by (elim conjE)
  have c2: "both_contents
     (snd (store_conversation_for_search unformatted example_manager ''e2''
             [(''id'', PStr ''1''), (''text'', PStr ''again'')] example_world))
     ([''conversations'', ''e1''], ''conv_1'') =
     both_contents example_world ([''conversations'', ''e1''], ''conv_1'')"
    by (rule s2 [rule_format, OF d2])
  from touch
  have c3: "both_contents
      (snd (get_context_for_response example_manager ''e2'' ''hello'' example_world)) =
     both_contents example_world"
    by (elim conjE)
  have t1: "call_log (store_user_preferences (spied example_manager) ''e2''
      [(''theme'', PStr ''light'')] ([], example_world)) =
     [PutCall Regular [''user_data'', ''e2''] ''preferences'' (PDict [(''theme'', PStr ''light'')])]"
    by (simp add: store_user_preferences_calls)
  have t2: "call_log (get_context_for_response (spied example_manager) ''e2'' ''hello''
      ([], example_world)) =
     [GetCall Regular [''user_data'', ''e2''] ''preferences'',
      SearchCall Semantic [''conversations'', ''e2''] ''hello'' 2]"
    by (simp add: get_context_calls example_regular example_semantic
          first_store_def example_world_def)
  from k1 k2 d1 c1 d2 c2 c3 t1 t2 show ?thesis by (intro conjI)
qed

section \<open>The keys that are written\<close>

text \<open>
  Claim C4 says that every write creates a new key, so that no two calls of
  \<^verbatim>\<open>store_user_preferences\<close> or \<^verbatim>\<open>store_conversation_for_search\<close> write under the same
  namespace and key. The code writes under keys fixed by its arguments: the
  preferences of an entity always under \<^verbatim>\<open>"preferences"\<close>, a conversation under
  \<^verbatim>\<open>"conv_"\<close> and its id. Storing preferences twice for \<^verbatim>\<open>e1\<close>, and storing two
  conversations without an id for \<^verbatim>\<open>e1\<close>, each time \<^verbatim>\<open>put\<close>s twice under one pair,
  and the in-memory store then holds the second record in place of the first.
\<close>

theorem fresh_key_per_write_counterexample:
  "put_targets (call_log
     (store_user_preferences (spied example_manager) ''e1'' [(''theme'', PStr ''light'')]
        (snd (store_user_preferences (spied example_manager) ''e1'' [(''theme'', PStr ''dark'')]
                ([], [], []))))) =
     [([''user_data'', ''e1''], ''preferences''), ([''user_data'', ''e1''], ''preferences'')] \<and>
   \<not> distinct (put_targets (call_log
     (store_user_preferences (spied example_manager) ''e1'' [(''theme'', PStr ''light'')]
        (snd (store_user_preferences (spied example_manager) ''e1'' [(''theme'', PStr ''dark'')]
                ([], [], [])))))) \<and>
   snd (store_user_preferences example_manager ''e1'' [(''theme'', PStr ''light'')]
        (snd (store_user_preferences example_manager ''e1'' [(''theme'', PStr ''dark'')]
                ([], [])))) =
     ([(([''user_data'', ''e1''], ''preferences''), PDict [(''theme'', PStr ''light'')])], []) \<and>
   put_targets (call_log
     (store_conversation_for_search unformatted (spied example_manager) ''e1''
        [(''text'', PStr ''second'')]
        (snd (store_conversation_for_search unformatted (spied example_manager) ''e1''
                [(''text'', PStr ''first'')] ([], [], []))))) =
     [([''conversations'', ''e1''], ''conv_unknown''),
      ([''conversations'', ''e1''], ''conv_unknown'')]"
  by (simp add: store_user_preferences_is_put
        store_conversation_is_put [OF example_semantic]
        store_conversation_is_put [of "spied example_manager" "spy Semantic second_store"]
        example_regular example_semantic first_store_def second_store_def call_log_def
        conversation_key_def semantic_data_def dict_get_def format_value_def)

text \<open>
  Claim C4, as the code has it. \<^verbatim>\<open>store_user_preferences\<close> makes one \<^verbatim>\<open>put\<close>, under
  namespace \<^verbatim>\<open>["user_data", id]\<close> and the fixed key \<^verbatim>\<open>"preferences"\<close>;
  \<^verbatim>\<open>store_conversation_for_search\<close>, with a semantic store, makes one \<^verbatim>\<open>put\<close> under
  \<^verbatim>\<open>["conversations", id]\<close> and the key \<^verbatim>\<open>"conv_"\<close> followed by the conversation's id.
  So two calls of \<^verbatim>\<open>store_user_preferences\<close> write under the same namespace and key
  exactly when their entity ids are equal, two calls of
  \<^verbatim>\<open>store_conversation_for_search\<close> exactly when their entity ids and their formatted
  conversation ids are equal, and a call of the one never writes where a call of
  the other does.
\<close>

theorem write_targets:
  "put_targets (call_log (store_user_preferences (spied self) a prefs ([], w))) =
     [([''user_data'', a], ''preferences'')] \<and>
   (semantic_store self \<noteq> None \<longrightarrow>
      put_targets (call_log (store_conversation_for_search py_str (spied self) a c ([], w))) =
        [([''conversations'', a],
          ''conv_'' @ format_value py_str (dict_get c ''id'' (PStr ''unknown'')))]) \<and>
   (put_targets (call_log (store_user_preferences (spied self) a prefs ([], w))) =
    put_targets (call_log (store_user_preferences (spied self) a' prefs' ([], w')))
      \<longleftrightarrow> a = a') \<and>
   (semantic_store self \<noteq> None \<longrightarrow>
      (put_targets (call_log (store_conversation_for_search py_str (spied self) a c ([], w))) =
       put_targets (call_log (store_conversation_for_search py_str (spied self) a' c' ([], w')))
         \<longleftrightarrow> a = a' \<and>
             format_value py_str (dict_get c ''id'' (PStr ''unknown'')) =
             format_value py_str (dict_get c' ''id'' (PStr ''unknown'')))) \<and>
   put_targets (call_log (store_user_preferences (spied self) a prefs ([], w))) \<noteq>
   put_targets (call_log (store_conversation_for_search py_str (spied self) a' c' ([], w')))"
  by (cases "semantic_store self")
     (simp_all add: store_user_preferences_calls store_conversation_calls conversation_key_def)

theorem write_targets_witness:
  "semantic_store example_manager \<noteq> None \<and>
   put_targets (call_log (store_user_preferences (spied example_manager) ''e1''
      [(''theme'', PStr ''dark'')] ([], example_world))) =
     [([''user_data'', ''e1''], ''preferences'')] \<and>
   put_targets (call_log (store_conversation_for_search unformatted (spied example_manager) ''e1''
      [(''id'', PStr ''7''), (''text'', PStr ''first'')] ([], example_world))) =
     [([''conversations'', ''e1''], ''conv_7'')] \<and>
   put_targets (call_log (store_user_preferences (spied example_manager) ''e1''
      [(''theme'', PStr ''dark'')] ([], example_world))) =
   put_targets (call_log (store_user_preferences (spied example_manager) ''e1''
      [(''theme'', PStr ''light'')] ([], example_world))) \<and>
   put_targets (call_log (store_conversation_for_search unformatted (spied example_manager) ''e1''
      [(''id'', PStr ''7''), (''text'', PStr ''first'')] ([], example_world))) =
   put_targets (call_log (store_conversation_for_search unformatted (spied example_manager) ''e1''
      [(''id'', PStr ''7''), (''text'', PStr ''second'')] ([], example_world)))"
proof -
  have conf: "semantic_store example_manager \<noteq> None"
    by (simp add: example_semantic)
  note targets = write_targets [where self = example_manager and a = "''e1''" and a' = "''e1''"
      and prefs = "[(''theme'', PStr ''dark'')]" and prefs' = "[(''theme'', PStr ''light'')]"
      and py_str = unformatted
      and c = "[(''id'', PStr ''7''), (''text'', PStr ''first'')]"
      and c' = "[(''id'', PStr ''7''), (''text'', PStr ''second'')]"
      and w = example_world and w' = example_world]
  from targets conf show ?thesis
    by (auto simp: dict_get_def format_value_def)
qed

end
